theory Spec2Isabelle
  imports Main "HOL-Library.Word"
begin

section \<open>Text\<close>

text \<open>
  JavaScript strings are modelled as \<^typ>\<open>string\<close>, holding the UTF-8 bytes of the
  text. Every pattern and every identifier of the program is ASCII, and an ASCII byte
  never occurs inside the encoding of another character, so searching and comparing
  on bytes agrees with the program's searching and comparing on code units. The
  pictographs of the source are named constants holding their bytes.
\<close>

definition nl :: string where "nl = [CHR 0x0A]"

definition e_check :: string where "e_check = [CHR 0xE2, CHR 0x9C, CHR 0x85]"
definition e_cross :: string where "e_cross = [CHR 0xE2, CHR 0x9D, CHR 0x8C]"
definition e_chart :: string where "e_chart = [CHR 0xF0, CHR 0x9F, CHR 0x93, CHR 0x8A]"
definition e_target :: string where "e_target = [CHR 0xF0, CHR 0x9F, CHR 0x8E, CHR 0xAF]"
definition e_people :: string where "e_people = [CHR 0xF0, CHR 0x9F, CHR 0x91, CHR 0xA5]"
definition e_rising :: string where "e_rising = [CHR 0xF0, CHR 0x9F, CHR 0x93, CHR 0x88]"
definition e_key :: string where "e_key = [CHR 0xF0, CHR 0x9F, CHR 0x94, CHR 0x91]"
definition e_id :: string where "e_id = [CHR 0xF0, CHR 0x9F, CHR 0x86, CHR 0x94]"
definition e_calendar :: string where "e_calendar = [CHR 0xF0, CHR 0x9F, CHR 0x93, CHR 0x85]"
definition e_memo :: string where "e_memo = [CHR 0xF0, CHR 0x9F, CHR 0x93, CHR 0x9D]"
definition e_eye :: string where
  "e_eye = [CHR 0xF0, CHR 0x9F, CHR 0x91, CHR 0x81, CHR 0xEF, CHR 0xB8, CHR 0x8F]"
definition e_eyes :: string where "e_eyes = [CHR 0xF0, CHR 0x9F, CHR 0x91, CHR 0x80]"
definition e_clipboard :: string where "e_clipboard = [CHR 0xF0, CHR 0x9F, CHR 0x93, CHR 0x8B]"
definition e_plus :: string where "e_plus = [CHR 0xE2, CHR 0x9E, CHR 0x95]"
definition e_back :: string where "e_back = [CHR 0xF0, CHR 0x9F, CHR 0x94, CHR 0x99]"
definition e_mailbox :: string where "e_mailbox = [CHR 0xF0, CHR 0x9F, CHR 0x93, CHR 0xAD]"
definition e_hourglass :: string where "e_hourglass = [CHR 0xE2, CHR 0x8F, CHR 0xB3]"
definition e_runner :: string where "e_runner = [CHR 0xF0, CHR 0x9F, CHR 0x8F, CHR 0x83]"
definition e_question :: string where "e_question = [CHR 0xE2, CHR 0x9D, CHR 0x93]"
definition e_package :: string where "e_package = [CHR 0xF0, CHR 0x9F, CHR 0x93, CHR 0xA6]"
definition e_wrench :: string where "e_wrench = [CHR 0xF0, CHR 0x9F, CHR 0x94, CHR 0xA7]"
definition e_play :: string where
  "e_play = [CHR 0xE2, CHR 0x96, CHR 0xB6, CHR 0xEF, CHR 0xB8, CHR 0x8F]"
definition e_bin :: string where "e_bin = [CHR 0xF0, CHR 0x9F, CHR 0x97, CHR 0x91]"
definition e_bin_vs :: string where "e_bin_vs = e_bin @ [CHR 0xEF, CHR 0xB8, CHR 0x8F]"
definition e_rocket :: string where "e_rocket = [CHR 0xF0, CHR 0x9F, CHR 0x9A, CHR 0x80]"
definition e_warning :: string where
  "e_warning = [CHR 0xE2, CHR 0x9A, CHR 0xA0, CHR 0xEF, CHR 0xB8, CHR 0x8F]"
definition e_person :: string where "e_person = [CHR 0xF0, CHR 0x9F, CHR 0x91, CHR 0xA4]"
definition e_wave :: string where "e_wave = [CHR 0xF0, CHR 0x9F, CHR 0x91, CHR 0x8B]"
definition e_shrug :: string where "e_shrug = [CHR 0xF0, CHR 0x9F, CHR 0xA4, CHR 0xB7]"
definition e_phone :: string where "e_phone = [CHR 0xF0, CHR 0x9F, CHR 0x93, CHR 0xB1]"
definition e_heart :: string where
  "e_heart = [CHR 0xE2, CHR 0x9D, CHR 0xA4, CHR 0xEF, CHR 0xB8, CHR 0x8F]"
definition e_speech :: string where "e_speech = [CHR 0xF0, CHR 0x9F, CHR 0x92, CHR 0xAC]"

text \<open>Decimal text of a non-negative integer, as a template literal prints it.\<close>

fun show_nat :: "nat \<Rightarrow> string" where
  "show_nat n =
     (if n < 10 then [''0123456789'' ! n]
      else show_nat (n div 10) @ [''0123456789'' ! (n mod 10)])"

declare show_nat.simps [simp del]

text \<open>\<open>String.prototype.split(' ')\<close>: the pieces between the separators, empty ones kept.\<close>

fun split_on :: "char \<Rightarrow> string \<Rightarrow> string list" where
  "split_on sep [] = [[]]"
| "split_on sep (c # cs) =
     (if c = sep then [] # split_on sep cs
      else (case split_on sep cs of
              [] \<Rightarrow> [[c]]
            | w # ws \<Rightarrow> (c # w) # ws))"

section \<open>Values of the backend's JSON\<close>

text \<open>
  A field of a response object is a \<^typ>\<open>'a option\<close>: \<open>None\<close> is JavaScript's
  \<open>undefined\<close> (the field is absent). A number is a non-negative integer below
  \<open>2 ^ 53\<close>: these are the integers a double holds exactly and a template literal
  prints digit by digit. Other numbers and values nested inside a field are not
  modelled.
\<close>

datatype json = JNull | JNum "53 word" | JStr string

type_synonym item = "(string \<times> json) list"

definition field :: "item \<Rightarrow> string \<Rightarrow> json option" where
  "field obj k = map_of obj k"

text \<open>A value inside a template literal.\<close>

fun to_str :: "json option \<Rightarrow> string" where
  "to_str None = ''undefined''"
| "to_str (Some JNull) = ''null''"
| "to_str (Some (JNum n)) = show_nat (unat n)"
| "to_str (Some (JStr s)) = s"

text \<open>Truthiness, for \<open>x || fallback\<close>.\<close>

fun truthy :: "json option \<Rightarrow> bool" where
  "truthy None = False"
| "truthy (Some JNull) = False"
| "truthy (Some (JNum n)) = (n \<noteq> 0)"
| "truthy (Some (JStr s)) = (s \<noteq> [])"

definition or_else :: "json option \<Rightarrow> string \<Rightarrow> string" where
  "or_else v fallback = (if truthy v then to_str v else fallback)"

text \<open>The object \<open>pagination\<close> of a list envelope; each field may be absent.\<close>

record pagination =
  page :: "json option"
  pages :: "json option"
  total :: "json option"

section \<open>The Navigation Router: triggers of \<open>bot.action\<close>\<close>

text \<open>
  \<open>bot.action(trigger, handler)\<close> registers a middleware for button presses. The
  middlewares run in the order of registration; the first whose trigger matches the
  pressed button's data runs its handler, and since no handler of the program calls
  \<open>next\<close>, no later one runs. A string trigger matches the data that equals it. A
  regular expression is applied with \<open>exec\<close>, which searches the data for the leftmost
  place where the expression matches: the expressions of the program carry no \<open>^\<close> or
  \<open>$\<close> anchor. Each of them is a literal followed by one capture group, which is
  \<open>(\d+)\<close> or an alternation of literals.
\<close>

datatype group = Digits | Alt "string list"

datatype trigger = Exact string | Regex string group

definition is_digit :: "char \<Rightarrow> bool" where
  "is_digit c = (c \<in> set ''0123456789'')"

fun strip_prefix :: "string \<Rightarrow> string \<Rightarrow> string option" where
  "strip_prefix [] s = Some s"
| "strip_prefix (p # ps) [] = None"
| "strip_prefix (p # ps) (c # cs) = (if p = c then strip_prefix ps cs else None)"

text \<open>The capture group at the head of a string: \<open>\d+\<close> is greedy and needs one digit.\<close>

fun match_alt :: "string list \<Rightarrow> string \<Rightarrow> string option" where
  "match_alt [] s = None"
| "match_alt (a # as) s =
     (case strip_prefix a s of
        Some r \<Rightarrow> Some a
      | None \<Rightarrow> match_alt as s)"

fun match_group :: "group \<Rightarrow> string \<Rightarrow> string option" where
  "match_group Digits s =
     (let d = takeWhile is_digit s in if d = [] then None else Some d)"
| "match_group (Alt as) s = match_alt as s"

definition match_here :: "string \<Rightarrow> group \<Rightarrow> string \<Rightarrow> string option" where
  "match_here lit g s =
     (case strip_prefix lit s of
        None \<Rightarrow> None
      | Some r \<Rightarrow> match_group g r)"

text \<open>\<open>RegExp.prototype.exec\<close>: the first capture of the leftmost match.\<close>

fun regex_exec :: "string \<Rightarrow> group \<Rightarrow> string \<Rightarrow> string option" where
  "regex_exec lit g [] = match_here lit g []"
| "regex_exec lit g (c # cs) =
     (case match_here lit g (c # cs) of
        Some m \<Rightarrow> Some m
      | None \<Rightarrow> regex_exec lit g cs)"

text \<open>A trigger applied to the data: the first capture, empty for a string trigger.\<close>

fun fire :: "trigger \<Rightarrow> string \<Rightarrow> string option" where
  "fire (Exact t) d = (if d = t then Some [] else None)"
| "fire (Regex lit g) d = regex_exec lit g d"

text \<open>The handlers of button presses, each with the \<open>ctx.match[1]\<close> it reads.\<close>

datatype handler =
    JobsList
  | JobDetails string
  | RunJob string
  | DeleteJob string
  | ConfirmDeleteJob string
  | TargetsList
  | LeadsList string
  | LeadDetails string
  | ConfirmDeleteAccount
  | CancelDelete
  | BackMenu
  | BackJobs
  | BackTargets
  | BackLeads

text \<open>The registrations, in the order of the source file.\<close>

definition actions :: "(trigger \<times> (string \<Rightarrow> handler)) list" where
  "actions =
     [ (Exact ''jobs_list'', \<lambda>m. JobsList),
       (Regex ''job_'' Digits, JobDetails),
       (Regex ''run_job_'' Digits, RunJob),
       (Regex ''delete_job_'' Digits, DeleteJob),
       (Regex ''confirm_delete_job_'' Digits, ConfirmDeleteJob),
       (Exact ''targets_list'', \<lambda>m. TargetsList),
       (Regex ''leads_'' (Alt [''all'', ''ready'']), LeadsList),
       (Regex ''lead_'' Digits, LeadDetails),
       (Exact ''confirm_delete_account'', \<lambda>m. ConfirmDeleteAccount),
       (Exact ''cancel_delete'', \<lambda>m. CancelDelete),
       (Exact ''back_menu'', \<lambda>m. BackMenu),
       (Exact ''back_jobs'', \<lambda>m. BackJobs),
       (Exact ''back_targets'', \<lambda>m. BackTargets),
       (Exact ''back_leads'', \<lambda>m. BackLeads) ]"

fun first_match :: "(trigger \<times> (string \<Rightarrow> handler)) list \<Rightarrow> string \<Rightarrow> handler option" where
  "first_match [] d = None"
| "first_match ((t, h) # rs) d =
     (case fire t d of
        Some m \<Rightarrow> Some (h m)
      | None \<Rightarrow> first_match rs d)"

definition dispatch :: "string \<Rightarrow> handler option" where
  "dispatch d = first_match actions d"

section \<open>The Credential Store\<close>

text \<open>
  The collection of \<open>Client\<close> documents. \<open>telegramId\<close> is declared unique, so the
  collection is a map from the identity's text (\<open>ctx.from.id.toString()\<close>) to the
  document. Times are numbers.
\<close>

record client =
  telegramId :: string
  apiToken :: string
  baseUrl :: string
  createdAt :: nat
  lastUsed :: nat

type_synonym store = "string \<rightharpoonup> client"

definition getClient :: "store \<Rightarrow> string \<Rightarrow> client option" where
  "getClient st uid = st uid"

text \<open>\<open>Client.updateOne({telegramId: k}, change)\<close>: nothing happens without a document.\<close>

definition updateOne :: "store \<Rightarrow> string \<Rightarrow> (client \<Rightarrow> client) \<Rightarrow> store" where
  "updateOne st k change = (case st k of None \<Rightarrow> st | Some c \<Rightarrow> st(k \<mapsto> change c))"

text \<open>
  \<open>Client.findOneAndUpdate({telegramId: k}, {...}, {upsert: true})\<close> as \<open>settoken\<close>
  calls it: a new document takes the schema's default for \<open>createdAt\<close>, an existing one
  keeps its own.
\<close>

definition findOneAndUpdate :: "store \<Rightarrow> string \<Rightarrow> string \<Rightarrow> string \<Rightarrow> nat \<Rightarrow> store" where
  "findOneAndUpdate st k token url t =
     st(k \<mapsto> (case st k of
                None \<Rightarrow> \<lparr>telegramId = k, apiToken = token, baseUrl = url,
                          createdAt = t, lastUsed = t\<rparr>
              | Some c \<Rightarrow> c\<lparr>telegramId := k, apiToken := token, baseUrl := url,
                            lastUsed := t\<rparr>))"

definition deleteOne :: "store \<Rightarrow> string \<Rightarrow> store" where
  "deleteOne st k = st(k := None)"

section \<open>Requests, responses and the environment of one event\<close>

text \<open>The configuration object handed to \<open>axios\<close>: its keys, in the order written.\<close>

datatype cfg_val = Str string | Headers "(string \<times> string) list" | Body string

type_synonym config = "(string \<times> cfg_val) list"

text \<open>
  The body of a successful response (\<open>response.data\<close>): the envelope of a list
  endpoint, with or without the object \<open>pagination\<close>, the envelope of a detail
  endpoint, or a body with no field \<open>data\<close>.
\<close>

datatype body = Listing "item list" "pagination option" | Detail item | Plain

text \<open>
  A request either succeeds with a body or fails. \<open>Failed None\<close> is a failure with no
  response, or with a response whose body is falsy; \<open>Failed (Some v)\<close> is a failure
  whose response body is an object, \<open>v\<close> being that object's field \<open>error\<close>.
\<close>

datatype http_result = Ok body | Failed "json option option"

text \<open>
  What one event finds outside the handler: the environment variable
  \<open>API_BASE_URL\<close>, the clock, the backend's answer to a request, whether a write to
  the store succeeds, and what the host prints: the two locale-dependent renderings
  (\<open>new Date(x).toLocaleString()\<close> and \<open>n.toLocaleString()\<close>) and the text of a
  member of \<open>Object.prototype\<close>. The two ways in which the program asks for a
  reaction to a message, \<open>ctx.setMessageReaction(emoji)\<close> and
  \<open>ctx.telegram.setMessageReaction(chat, message, emoji)\<close>, each either succeed or
  throw, depending on the messaging library: a context without the method
  \<open>setMessageReaction\<close> makes the first one throw every time. Reads of the store and
  all other calls to the messaging API are taken to succeed.
\<close>

record env =
  api_base_url :: "string option"
  now :: nat
  axios :: "config \<Rightarrow> http_result"
  db_ok :: bool
  date_text :: "json option \<Rightarrow> string"
  number_text :: "nat \<Rightarrow> string"
  member_text :: "string \<Rightarrow> string"
  ctx_reactions :: bool
  telegram_reactions :: bool

datatype keyboard = MainMenu | Inline "(string \<times> string) list list"

text \<open>What a handler does to the outside, in order.\<close>

datatype effect =
    Reply string "keyboard option"
  | ReplyLater string "keyboard option"
  | EditMessageText string "keyboard option"
  | EditLoading string
  | AnswerCbQuery "string option" bool
  | Reaction string
  | DeleteMessage
  | Http config

datatype completion = Returned | Threw

type_synonym run = "store \<times> effect list \<times> completion"

text \<open>
  \<open>reactToMessage\<close> wraps \<open>ctx.setMessageReaction(emoji)\<close> in a \<open>try\<close> whose \<open>catch\<close>
  only logs; the handlers wrap \<open>ctx.telegram.setMessageReaction\<close> in a \<open>try\<close> with an
  empty \<open>catch\<close>. Either way a reaction is set or nothing happens.
\<close>

definition reactToMessage :: "env \<Rightarrow> string \<Rightarrow> effect list" where
  "reactToMessage e emoji = (if ctx_reactions e then [Reaction emoji] else [])"

definition setMessageReaction :: "env \<Rightarrow> string \<Rightarrow> effect list" where
  "setMessageReaction e emoji = (if telegram_reactions e then [Reaction emoji] else [])"

section \<open>The API Proxy\<close>

definition generic_error :: "json option" where
  "generic_error = Some (JStr ''API request failed'')"

text \<open>
  \<open>makeApiRequest\<close> returns the response body, or throws an object of which the
  callers read the field \<open>error\<close>: \<open>Inl\<close> carries that field. Everything happens
  inside one \<open>try\<close>: reading \<open>client.baseUrl\<close> of an absent client, the request, and
  the update of \<open>lastUsed\<close>. The \<open>catch\<close> throws \<open>error.response?.data\<close>, or the
  generic object when that is absent or falsy. A request body, when one is given, is
  an object, which is truthy; no caller of the program gives one.
\<close>

definition request_config :: "client \<Rightarrow> string \<Rightarrow> string \<Rightarrow> string option \<Rightarrow> config" where
  "request_config c endpoint method data =
     [ (''method'', Str method),
       (''url'', Str (baseUrl c @ endpoint)),
       (''headers'', Headers [ (''Authorization'', ''Bearer '' @ apiToken c),
                               (''Content-Type'', ''application/json'') ]) ]
     @ (case data of None \<Rightarrow> [] | Some d \<Rightarrow> [(''data'', Body d)])"

text \<open>\<open>error.response?.data || { error: 'API request failed' }\<close>, read at \<open>error\<close>.\<close>

definition thrown :: "json option option \<Rightarrow> json option" where
  "thrown v = (case v of None \<Rightarrow> generic_error | Some x \<Rightarrow> x)"

definition makeApiRequest ::
  "env \<Rightarrow> store \<Rightarrow> client option \<Rightarrow> string \<Rightarrow> string \<Rightarrow> string option
     \<Rightarrow> (json option + body) \<times> store \<times> effect list" where
  "makeApiRequest e st cl endpoint method data =
     (case cl of
        None \<Rightarrow> (Inl generic_error, st, [])
      | Some c \<Rightarrow>
          let config = request_config c endpoint method data
          in (case axios e config of
                Failed v \<Rightarrow> (Inl (thrown v), st, [Http config])
              | Ok b \<Rightarrow>
                  if db_ok e
                  then (Inr b,
                        updateOne st (telegramId c) (\<lambda>d. d\<lparr>lastUsed := now e\<rparr>),
                        [Http config])
                  else (Inl generic_error, st, [Http config])))"

section \<open>Typed commands\<close>

definition default_url :: string where
  "default_url = ''http://localhost:5000/api/v1''"

text \<open>\<open>process.env.API_BASE_URL || 'http://localhost:5000/api/v1'\<close>\<close>

definition base_url :: "env \<Rightarrow> string" where
  "base_url e =
     (case api_base_url e of
        None \<Rightarrow> default_url
      | Some u \<Rightarrow> if u = [] then default_url else u)"

text \<open>\<open>ctx.message.text.split(' ').slice(1)\<close>\<close>

definition command_args :: "string \<Rightarrow> string list" where
  "command_args text = tl (split_on CHR '' '' text)"

definition testConfig :: "env \<Rightarrow> string \<Rightarrow> config" where
  "testConfig e token =
     [ (''method'', Str ''GET''),
       (''url'', Str (base_url e @ ''/stats'')),
       (''headers'', Headers [(''Authorization'', ''Bearer '' @ token)]) ]"

definition token_saved :: string where
  "token_saved = e_check @ '' Token verified and saved successfully!'' @ nl @ nl
                 @ ''Use /start to access the menu.''"

definition token_invalid :: string where
  "token_invalid = e_cross @ '' Invalid token or API is unreachable.'' @ nl @ nl
                   @ ''Please check your token and try again.''"

definition settoken :: "env \<Rightarrow> store \<Rightarrow> string \<Rightarrow> string \<Rightarrow> run" where
  "settoken e st uid text =
     (case command_args text of
        [] \<Rightarrow> (st, reactToMessage e e_key
                     @ [Reply (e_cross @ '' Please provide your API token:'' @ nl
                               @ ''/settoken YOUR_TOKEN'') None], Returned)
      | token # rest \<Rightarrow>
          let before = reactToMessage e e_key
                       @ [ Reply (e_eye @ '' Verifying token...'') None,
                           Http (testConfig e token) ];
              failed = (st, before @ [EditLoading token_invalid] @ reactToMessage e e_cross,
                        Returned)
          in (case axios e (testConfig e token) of
                Failed v \<Rightarrow> failed
              | Ok b \<Rightarrow>
                  if db_ok e
                  then (findOneAndUpdate st uid token (base_url e) (now e),
                        before @ [EditLoading token_saved] @ reactToMessage e e_check,
                        Returned)
                  else failed))"


section \<open>Menu entries (\<open>bot.hears\<close>)\<close>

definition not_onboarded :: string where
  "not_onboarded = e_cross @ '' Please set your token first: /settoken''"

definition jobs_menu :: keyboard where
  "jobs_menu = Inline
     [ [(e_clipboard @ '' List All Jobs'', ''jobs_list'')],
       [(e_plus @ '' Create New Job'', ''jobs_create'')],
       [(e_back @ '' Back to Menu'', ''back_menu'')] ]"

definition targets_menu :: keyboard where
  "targets_menu = Inline
     [ [(e_clipboard @ '' List Targets'', ''targets_list'')],
       [(e_plus @ '' Create Target'', ''targets_create'')],
       [(e_back @ '' Back'', ''back_menu'')] ]"

definition leads_menu :: keyboard where
  "leads_menu = Inline
     [ [(e_clipboard @ '' All Leads'', ''leads_all'')],
       [(e_check @ '' Outreach Ready'', ''leads_ready'')],
       [(e_back @ '' Back'', ''back_menu'')] ]"

definition jobs_menu_text :: string where
  "jobs_menu_text = e_chart @ '' Job Management'' @ nl @ nl @ ''Choose an action:''"

definition targets_menu_text :: string where
  "targets_menu_text = e_target @ '' Target Management'' @ nl @ nl @ ''Choose an action:''"

definition leads_menu_text :: string where
  "leads_menu_text = e_people @ '' Leads Management'' @ nl @ nl @ ''Choose an option:''"

definition hears_jobs :: "env \<Rightarrow> store \<Rightarrow> string \<Rightarrow> run" where
  "hears_jobs e st uid =
     (case getClient st uid of
        None \<Rightarrow> (st, reactToMessage e e_eyes @ [Reply not_onboarded None], Returned)
      | Some c \<Rightarrow> (st, reactToMessage e e_eyes @ [Reply jobs_menu_text (Some jobs_menu)],
                   Returned))"

definition hears_targets :: "env \<Rightarrow> store \<Rightarrow> string \<Rightarrow> run" where
  "hears_targets e st uid =
     (case getClient st uid of
        None \<Rightarrow> (st, reactToMessage e e_eyes @ [Reply not_onboarded None], Returned)
      | Some c \<Rightarrow> (st, reactToMessage e e_eyes @ [Reply targets_menu_text (Some targets_menu)],
                   Returned))"

definition hears_leads :: "env \<Rightarrow> store \<Rightarrow> string \<Rightarrow> run" where
  "hears_leads e st uid =
     (case getClient st uid of
        None \<Rightarrow> (st, reactToMessage e e_eyes @ [Reply not_onboarded None], Returned)
      | Some c \<Rightarrow> (st, reactToMessage e e_eyes @ [Reply leads_menu_text (Some leads_menu)],
                   Returned))"

text \<open>
  The content analysis view. \<open>x?.toLocaleString() || 0\<close> prints 0 for an absent, null
  or empty value and the locale's rendering of a number otherwise.
\<close>

fun localized :: "env \<Rightarrow> json option \<Rightarrow> string" where
  "localized e None = ''0''"
| "localized e (Some JNull) = ''0''"
| "localized e (Some (JNum n)) = number_text e (unat n)"
| "localized e (Some (JStr s)) = (if s = [] then ''0'' else s)"

definition content_entry :: "env \<Rightarrow> nat \<Rightarrow> item \<Rightarrow> string" where
  "content_entry e idx content =
     show_nat (idx + 1) @ ''. '' @ e_phone @ '' '' @ to_str (field content ''platform'')
       @ '' - @'' @ to_str (field content ''username'') @ nl
     @ ''   '' @ e_heart @ '' Likes: '' @ localized e (field content ''likes_count'') @ nl
     @ ''   '' @ e_speech @ '' Comments: '' @ or_else (field content ''comments_count'') ''0'' @ nl
     @ ''   '' @ e_eye @ '' Views: '' @ localized e (field content ''views_count'') @ nl
     @ ''   '' @ e_chart @ '' Engagement: '' @ or_else (field content ''engagement_rate'') ''N/A''
     @ nl @ nl"

fun content_entries :: "env \<Rightarrow> nat \<Rightarrow> item list \<Rightarrow> string" where
  "content_entries e idx [] = []"
| "content_entries e idx (c # cs) = content_entry e idx c @ content_entries e (idx + 1) cs"

definition fetch_failed :: "string \<Rightarrow> json option \<Rightarrow> string" where
  "fetch_failed what err = e_cross @ '' Error: '' @ or_else err (''Failed to fetch '' @ what)"

definition hears_content_analysis :: "env \<Rightarrow> store \<Rightarrow> string \<Rightarrow> run" where
  "hears_content_analysis e st uid =
     (case getClient st uid of
        None \<Rightarrow> (st, reactToMessage e e_eyes @ [Reply not_onboarded None], Returned)
      | Some c \<Rightarrow>
          let (r, st', reqs) =
                makeApiRequest e st (Some c) ''/content-analysis?page=1&per_page=5'' ''GET'' None;
              before = reactToMessage e e_eyes
                       @ [Reply (e_eye @ '' Loading content analysis...'') None]
                       @ reqs;
              caught = (\<lambda>err. before
                         @ [EditLoading (fetch_failed ''content analysis'' err)]
                         @ reactToMessage e e_cross);
              nothing = before @ reactToMessage e e_shrug
                        @ [EditLoading (e_mailbox @ '' No content analysis data found.'')]
          in (st',
              (case r of
                 Inl err \<Rightarrow> caught err
               | Inr (Listing items None) \<Rightarrow>
                   if items = [] then nothing else caught None
               | Inr (Listing items (Some pg)) \<Rightarrow>
                   if items = [] then nothing
                   else before
                        @ [EditLoading (e_rising @ '' Content Analysis (Page 1/''
                                        @ to_str (pages pg) @ '')'' @ nl @ nl
                                        @ content_entries e 0 items)]
                        @ reactToMessage e e_check
               | Inr (Detail obj) \<Rightarrow>
                   if field obj ''length'' = Some (JNum 0) then nothing else caught None
               | Inr Plain \<Rightarrow> caught None),
              Returned))"

section \<open>Button handlers (\<open>bot.action\<close>)\<close>

text \<open>
  The status pictograph: a lookup in an object literal by the status's text. A key
  that the literal does not have is looked up in \<open>Object.prototype\<close>, whose members
  are truthy and print as the host prints them; any other key gives the question
  mark.
\<close>

definition object_prototype_keys :: "string list" where
  "object_prototype_keys =
     [ ''constructor'', ''__defineGetter__'', ''__defineSetter__'', ''hasOwnProperty'',
       ''__lookupGetter__'', ''__lookupSetter__'', ''isPrototypeOf'',
       ''propertyIsEnumerable'', ''toString'', ''valueOf'', ''__proto__'',
       ''toLocaleString'' ]"

definition status_emoji :: "env \<Rightarrow> json option \<Rightarrow> string" where
  "status_emoji e status =
     (let k = to_str status in
      if k = ''queued'' then e_hourglass
      else if k = ''running'' then e_runner
      else if k = ''finished'' then e_check
      else if k = ''failed'' then e_cross
      else if k \<in> set object_prototype_keys then member_text e k
      else e_question)"

definition job_button :: "env \<Rightarrow> item \<Rightarrow> (string \<times> string) list" where
  "job_button e job =
     [(status_emoji e (field job ''status'') @ '' '' @ to_str (field job ''name''),
       ''job_'' @ to_str (field job ''id''))]"

definition target_button :: "item \<Rightarrow> (string \<times> string) list" where
  "target_button target =
     [(e_target @ '' '' @ to_str (field target ''identifier''),
       ''target_'' @ to_str (field target ''id''))]"

definition lead_button :: "item \<Rightarrow> (string \<times> string) list" where
  "lead_button lead =
     [(e_person @ '' '' @ to_str (field lead ''username'') @ '' (''
         @ to_str (field lead ''followers'') @ '' followers)'',
       ''lead_'' @ to_str (field lead ''id''))]"

definition jobs_list :: "env \<Rightarrow> store \<Rightarrow> string \<Rightarrow> run" where
  "jobs_list e st uid =
     (let (r, st', reqs) =
            makeApiRequest e st (getClient st uid) ''/jobs?page=1&per_page=10'' ''GET'' None;
          before = [AnswerCbQuery (Some (e_eye @ '' Loading jobs...'')) False] @ reqs;
          caught = (\<lambda>err. before @ [EditMessageText (fetch_failed ''jobs'' err) None]);
          nothing = before @ [EditMessageText (e_mailbox @ '' No jobs found.'' @ nl @ nl
                                               @ ''Create your first job!'') None]
      in (st',
          (case r of
             Inl err \<Rightarrow> caught err
           | Inr (Listing items None) \<Rightarrow>
               if items = [] then nothing else caught None
           | Inr (Listing items (Some pg)) \<Rightarrow>
               if items = [] then nothing
               else before
                    @ [EditMessageText
                         (e_chart @ '' Jobs List (Page '' @ to_str (page pg) @ ''/''
                            @ to_str (pages pg) @ '')'' @ nl
                          @ e_package @ '' Total: '' @ to_str (total pg) @ nl @ nl
                          @ ''Select a job to view details:'')
                         (Some (Inline (map (job_button e) items
                                        @ [[(e_back @ '' Back'', ''back_jobs'')]])))]
           | Inr (Detail obj) \<Rightarrow>
               if field obj ''length'' = Some (JNum 0) then nothing else caught None
           | Inr Plain \<Rightarrow> caught None),
          Returned))"

definition job_details_text :: "env \<Rightarrow> item \<Rightarrow> string" where
  "job_details_text e job =
     e_chart @ '' Job Details'' @ nl @ nl
     @ e_id @ '' ID: '' @ to_str (field job ''id'') @ nl
     @ e_memo @ '' Name: '' @ to_str (field job ''name'') @ nl
     @ status_emoji e (field job ''status'') @ '' Status: '' @ to_str (field job ''status'') @ nl
     @ e_wrench @ '' Type: '' @ to_str (field job ''job_type'') @ nl
     @ e_people @ '' Users Stored: '' @ or_else (field job ''users_stored'') ''0'' @ nl
     @ e_calendar @ '' Created: '' @ date_text e (field job ''created_at'')"

definition job_details_keyboard :: "string \<Rightarrow> keyboard" where
  "job_details_keyboard jobId = Inline
     [ [(e_play @ '' Run Job'', ''run_job_'' @ jobId)],
       [(e_bin_vs @ '' Delete'', ''delete_job_'' @ jobId)],
       [(e_back @ '' Back to List'', ''jobs_list'')] ]"

text \<open>A list envelope read as a job is an array: none of the fields read is there.\<close>

definition job_details :: "env \<Rightarrow> store \<Rightarrow> string \<Rightarrow> string \<Rightarrow> run" where
  "job_details e st uid jobId =
     (let (r, st', reqs) =
            makeApiRequest e st (getClient st uid) (''/jobs/'' @ jobId) ''GET'' None;
          before = [AnswerCbQuery (Some (e_eye @ '' Loading job details...'')) False] @ reqs;
          shown = (\<lambda>job. before @ [EditMessageText (job_details_text e job)
                                      (Some (job_details_keyboard jobId))])
      in (st',
          (case r of
             Inl err \<Rightarrow> before @ [EditMessageText (fetch_failed ''job'' err) None]
           | Inr (Detail job) \<Rightarrow> shown job
           | Inr (Listing items pg) \<Rightarrow> shown []
           | Inr Plain \<Rightarrow> before @ [EditMessageText (fetch_failed ''job'' None) None]),
          Returned))"

text \<open>
  After a successful start the handler calls \<open>ctx.scene.reenter()\<close>. No scene
  middleware is installed, so \<open>ctx.scene\<close> is undefined and the call throws inside the
  \<open>try\<close>; the \<open>catch\<close> prints the field \<open>error\<close> of that exception, which is
  undefined.
\<close>

definition run_job :: "env \<Rightarrow> store \<Rightarrow> string \<Rightarrow> string \<Rightarrow> run" where
  "run_job e st uid jobId =
     (let (r, st', reqs) =
            makeApiRequest e st (getClient st uid) (''/jobs/'' @ jobId @ ''/run'') ''POST'' None;
          before = [AnswerCbQuery (Some (e_eye @ '' Starting job...'')) False] @ reqs
      in (st',
          (case r of
             Inl err \<Rightarrow> before @ [AnswerCbQuery (Some (e_cross @ '' '' @ to_str err)) True]
           | Inr b \<Rightarrow> before
                      @ [AnswerCbQuery (Some (e_check @ '' Job started!'')) True]
                      @ setMessageReaction e e_rocket
                      @ [AnswerCbQuery (Some (e_cross @ '' '' @ to_str None)) True]),
          Returned))"

definition delete_job :: "env \<Rightarrow> store \<Rightarrow> string \<Rightarrow> string \<Rightarrow> run" where
  "delete_job e st uid jobId =
     (st,
      [EditMessageText
         (e_warning @ '' Are you sure you want to delete this job?'' @ nl @ nl
          @ ''This action cannot be undone.'')
         (Some (Inline [[ (e_check @ '' Yes, Delete'', ''confirm_delete_job_'' @ jobId),
                          (e_cross @ '' Cancel'', ''jobs_list'') ]]))],
      Returned)"

definition job_deleted :: "env \<Rightarrow> effect list" where
  "job_deleted e =
     [AnswerCbQuery (Some (e_check @ '' Job deleted!'')) True]
     @ setMessageReaction e e_bin
     @ [ EditMessageText (e_check @ '' Job deleted successfully!'') None,
         ReplyLater ''Choose an option:'' (Some MainMenu) ]"

definition confirm_delete_job :: "env \<Rightarrow> store \<Rightarrow> string \<Rightarrow> string \<Rightarrow> run" where
  "confirm_delete_job e st uid jobId =
     (let (r, st', reqs) =
            makeApiRequest e st (getClient st uid) (''/jobs/'' @ jobId) ''DELETE'' None;
          before = [AnswerCbQuery (Some (e_eye @ '' Deleting job...'')) False] @ reqs
      in (st',
          (case r of
             Inl err \<Rightarrow> before @ [AnswerCbQuery (Some (e_cross @ '' '' @ to_str err)) True]
           | Inr b \<Rightarrow> before @ job_deleted e),
          Returned))"

definition targets_list :: "env \<Rightarrow> store \<Rightarrow> string \<Rightarrow> run" where
  "targets_list e st uid =
     (let (r, st', reqs) =
            makeApiRequest e st (getClient st uid) ''/targets?page=1&per_page=10'' ''GET'' None;
          before = [AnswerCbQuery (Some (e_eye @ '' Loading targets...'')) False] @ reqs;
          caught = (\<lambda>err. before @ [EditMessageText (fetch_failed ''targets'' err) None]);
          nothing = before @ [EditMessageText (e_mailbox @ '' No targets found.'') None]
      in (st',
          (case r of
             Inl err \<Rightarrow> caught err
           | Inr (Listing items None) \<Rightarrow>
               if items = [] then nothing else caught None
           | Inr (Listing items (Some pg)) \<Rightarrow>
               if items = [] then nothing
               else before
                    @ [EditMessageText
                         (e_target @ '' Targets (Page '' @ to_str (page pg) @ ''/''
                            @ to_str (pages pg) @ '')'' @ nl @ nl
                          @ ''Select a target:'')
                         (Some (Inline (map target_button items
                                        @ [[(e_back @ '' Back'', ''back_targets'')]])))]
           | Inr (Detail obj) \<Rightarrow>
               if field obj ''length'' = Some (JNum 0) then nothing else caught None
           | Inr Plain \<Rightarrow> caught None),
          Returned))"

definition leads_list :: "env \<Rightarrow> store \<Rightarrow> string \<Rightarrow> string \<Rightarrow> run" where
  "leads_list e st uid type =
     (let query = (if type = ''ready'' then ''?outreach_ready=true&page=1'' else ''?page=1'');
          (r, st', reqs) =
            makeApiRequest e st (getClient st uid) (''/leads'' @ query) ''GET'' None;
          before = [AnswerCbQuery (Some (e_eye @ '' Loading leads...'')) False] @ reqs;
          caught = (\<lambda>err. before @ [EditMessageText (fetch_failed ''leads'' err) None]);
          nothing = before @ [EditMessageText (e_mailbox @ '' No leads found.'') None]
      in (st',
          (case r of
             Inl err \<Rightarrow> caught err
           | Inr (Listing items None) \<Rightarrow>
               if items = [] then nothing else caught None
           | Inr (Listing items (Some pg)) \<Rightarrow>
               if items = [] then nothing
               else before
                    @ [EditMessageText
                         (e_people @ '' Leads (Page '' @ to_str (page pg) @ ''/''
                            @ to_str (pages pg) @ '')'' @ nl
                          @ ''Total: '' @ to_str (total pg) @ nl @ nl
                          @ ''Select a lead:'')
                         (Some (Inline (map lead_button items
                                        @ [[(e_back @ '' Back'', ''back_leads'')]])))]
           | Inr (Detail obj) \<Rightarrow>
               if field obj ''length'' = Some (JNum 0) then nothing else caught None
           | Inr Plain \<Rightarrow> caught None),
          Returned))"

text \<open>
  The lead view builds its keyboard from a variable \<open>type\<close> that is not in scope
  there, so after a successful request the \<open>try\<close> always ends in an exception with no
  field \<open>error\<close>.
\<close>

definition lead_details :: "env \<Rightarrow> store \<Rightarrow> string \<Rightarrow> string \<Rightarrow> run" where
  "lead_details e st uid leadId =
     (let (r, st', reqs) =
            makeApiRequest e st (getClient st uid) (''/leads/'' @ leadId) ''GET'' None;
          before = [AnswerCbQuery (Some (e_eye @ '' Loading lead details...'')) False] @ reqs
      in (st',
          (case r of
             Inl err \<Rightarrow> before @ [EditMessageText (fetch_failed ''lead'' err) None]
           | Inr b \<Rightarrow> before @ [EditMessageText (fetch_failed ''lead'' None) None]),
          Returned))"

definition confirm_delete_account :: "env \<Rightarrow> store \<Rightarrow> string \<Rightarrow> run" where
  "confirm_delete_account e st uid =
     (let before = [AnswerCbQuery (Some (e_eye @ '' Deleting account...'')) False]
      in if db_ok e
         then (deleteOne st uid,
               before @ setMessageReaction e e_wave
               @ [EditMessageText (e_check @ '' Account deleted successfully!'' @ nl @ nl
                                   @ ''Use /settoken to create a new account.'') None],
               Returned)
         else (st, before, Threw))"

definition cancel_delete :: "env \<Rightarrow> store \<Rightarrow> string \<Rightarrow> run" where
  "cancel_delete e st uid =
     (st,
      [ AnswerCbQuery (Some ''Cancelled'') False,
        EditMessageText (e_cross @ '' Account deletion cancelled.'') None ],
      Returned)"

definition back_menu :: "env \<Rightarrow> store \<Rightarrow> string \<Rightarrow> run" where
  "back_menu e st uid =
     (st, [AnswerCbQuery None False, DeleteMessage, Reply ''Choose an option:'' (Some MainMenu)],
      Returned)"

definition back_jobs :: "env \<Rightarrow> store \<Rightarrow> string \<Rightarrow> run" where
  "back_jobs e st uid =
     (st, [AnswerCbQuery None False, EditMessageText jobs_menu_text (Some jobs_menu)], Returned)"

definition back_targets :: "env \<Rightarrow> store \<Rightarrow> string \<Rightarrow> run" where
  "back_targets e st uid =
     (st, [AnswerCbQuery None False, EditMessageText targets_menu_text (Some targets_menu)],
      Returned)"

definition back_leads :: "env \<Rightarrow> store \<Rightarrow> string \<Rightarrow> run" where
  "back_leads e st uid =
     (st, [AnswerCbQuery None False, EditMessageText leads_menu_text (Some leads_menu)],
      Returned)"

section \<open>One button press, from the router to the top-level error handler\<close>

fun run_handler :: "env \<Rightarrow> store \<Rightarrow> string \<Rightarrow> handler \<Rightarrow> run" where
  "run_handler e st uid JobsList = jobs_list e st uid"
| "run_handler e st uid (JobDetails m) = job_details e st uid m"
| "run_handler e st uid (RunJob m) = run_job e st uid m"
| "run_handler e st uid (DeleteJob m) = delete_job e st uid m"
| "run_handler e st uid (ConfirmDeleteJob m) = confirm_delete_job e st uid m"
| "run_handler e st uid TargetsList = targets_list e st uid"
| "run_handler e st uid (LeadsList m) = leads_list e st uid m"
| "run_handler e st uid (LeadDetails m) = lead_details e st uid m"
| "run_handler e st uid ConfirmDeleteAccount = confirm_delete_account e st uid"
| "run_handler e st uid CancelDelete = cancel_delete e st uid"
| "run_handler e st uid BackMenu = back_menu e st uid"
| "run_handler e st uid BackJobs = back_jobs e st uid"
| "run_handler e st uid BackTargets = back_targets e st uid"
| "run_handler e st uid BackLeads = back_leads e st uid"

text \<open>
  \<open>bot.catch\<close> replies with a fixed text when a handler throws. A press that no
  trigger matches falls through every middleware: nothing throws and nothing is sent.
\<close>

definition something_went_wrong :: string where
  "something_went_wrong = e_cross @ '' An error occurred. Please try again.''"

definition bot_catch :: "run \<Rightarrow> store \<times> effect list" where
  "bot_catch r =
     (case r of
        (st, effs, Returned) \<Rightarrow> (st, effs)
      | (st, effs, Threw) \<Rightarrow> (st, effs @ [Reply something_went_wrong None]))"

definition on_button :: "env \<Rightarrow> store \<Rightarrow> string \<Rightarrow> string \<Rightarrow> store \<times> effect list" where
  "on_button e st uid d =
     (case dispatch d of
        None \<Rightarrow> (st, [])
      | Some h \<Rightarrow> bot_catch (run_handler e st uid h))"

section \<open>Reading a trace\<close>

text \<open>The requests sent to the backend during a run, and the timeout each one sets.\<close>

fun requests :: "effect list \<Rightarrow> config list" where
  "requests [] = []"
| "requests (Http cfg # effs) = cfg # requests effs"
| "requests (eff # effs) = requests effs"

definition timeouts :: "effect list \<Rightarrow> cfg_val option list" where
  "timeouts effs = map (\<lambda>cfg. map_of cfg ''timeout'') (requests effs)"

text \<open>The one request a handler sends for an identity: none without a stored client.\<close>

definition one_request :: "store \<Rightarrow> string \<Rightarrow> string \<Rightarrow> string \<Rightarrow> config list" where
  "one_request st uid endpoint method =
     (case getClient st uid of
        None \<Rightarrow> []
      | Some c \<Rightarrow> [request_config c endpoint method None])"

section \<open>A sample identity, store and environment\<close>

definition client1 :: client where
  "client1 = \<lparr>telegramId = ''42'', apiToken = ''T1'',
              baseUrl = ''https://api.example.com/api/v1'', createdAt = 100, lastUsed = 100\<rparr>"

definition store1 :: store where
  "store1 = Map.empty(''42'' \<mapsto> client1)"

text \<open>
  An environment in which every request gets the answer \<open>r\<close>, \<open>API_BASE_URL\<close> is not
  set and no reaction can be set.
\<close>

definition answering :: "http_result \<Rightarrow> bool \<Rightarrow> env" where
  "answering r ok =
     \<lparr>api_base_url = None, now = 200, axios = (\<lambda>cfg. r), db_ok = ok,
      date_text = to_str, number_text = show_nat,
      member_text = (\<lambda>k. ''function '' @ k @ ''() { [native code] }''),
      ctx_reactions = False, telegram_reactions = False\<rparr>"


text \<open>A page of one target, of 57 targets on 6 pages.\<close>

definition listing1 :: body where
  "listing1 = Listing [[(''id'', JNum 5), (''identifier'', JStr ''acme'')]]
                      (Some \<lparr>page = Some (JNum 1), pages = Some (JNum 6),
                             total = Some (JNum 57)\<rparr>)"



section \<open>Facts about the router\<close>

lemma strip_prefix_split:
  "strip_prefix (p @ lit) s = Some x \<Longrightarrow> \<exists>r. s = p @ r \<and> strip_prefix lit r = Some x"
proof (induction p arbitrary: s)
  case Nil
  then show ?case by simp
next
  case (Cons a p)
  then show ?case by (cases s) (auto split: if_splits)
qed

lemma match_here_append:
  "match_here (p @ lit) g s = Some m \<Longrightarrow> \<exists>r. s = p @ r \<and> match_here lit g r = Some m"
  unfolding match_here_def
  by (auto split: option.splits dest!: strip_prefix_split)

lemma match_here_imp_exec: "match_here lit g s = Some m \<Longrightarrow> regex_exec lit g s \<noteq> None"
  by (cases s) (auto split: option.splits)

lemma regex_exec_append: "regex_exec lit g s \<noteq> None \<Longrightarrow> regex_exec lit g (p @ s) \<noteq> None"
  by (induction p) (auto split: option.splits)

text \<open>
  An unanchored expression matches wherever a longer one ending in it does: where
  \<open>/run_job_(\d+)/\<close> matches, so does \<open>/job_(\d+)/\<close>.
\<close>

lemma regex_exec_longer:
  "regex_exec (p @ lit) g s = Some m \<Longrightarrow> regex_exec lit g s \<noteq> None"
proof (induction s)
  case Nil
  then show ?case using match_here_append[of p lit g "[]" m] by auto
next
  case (Cons c cs)
  show ?case
  proof (cases "match_here (p @ lit) g (c # cs)")
    case None
    with Cons have "regex_exec lit g cs \<noteq> None" by simp
    then show ?thesis by (auto split: option.splits)
  next
    case (Some m')
    then obtain r where r: "c # cs = p @ r" "match_here lit g r = Some m'"
      using match_here_append by blast
    then have "regex_exec lit g r \<noteq> None" using match_here_imp_exec by blast
    then have "regex_exec lit g (p @ r) \<noteq> None" by (rule regex_exec_append)
    with r show ?thesis by simp
  qed
qed

lemma first_match_Some:
  "first_match rs d = Some h \<Longrightarrow> \<exists>t f m. (t, f) \<in> set rs \<and> fire t d = Some m \<and> h = f m"
  by (induction rs d rule: first_match.induct) (auto split: option.splits)

lemma job_trigger_shadows:
  "regex_exec ''job_'' Digits d \<noteq> None \<Longrightarrow>
     dispatch d = Some JobsList \<or> (\<exists>m. dispatch d = Some (JobDetails m))"
  by (auto simp: dispatch_def actions_def)

text \<open>
  The handlers registered after \<open>/job_(\d+)/\<close> under a trigger that ends in it are
  never reached, whatever the data.
\<close>

lemma run_job_unreachable: "dispatch d \<noteq> Some (RunJob m)"
proof
  assume a: "dispatch d = Some (RunJob m)"
  then obtain t f m' where tf: "(t, f) \<in> set actions" "fire t d = Some m'" "RunJob m = f m'"
    unfolding dispatch_def by (blast dest: first_match_Some)
  then have "t = Regex ''run_job_'' Digits" by (auto simp: actions_def)
  with tf have "regex_exec (''run_'' @ ''job_'') Digits d = Some m'" by simp
  then have "regex_exec ''job_'' Digits d \<noteq> None" by (rule regex_exec_longer)
  with a show False using job_trigger_shadows[of d] by auto
qed

lemma delete_job_unreachable: "dispatch d \<noteq> Some (DeleteJob m)"
proof
  assume a: "dispatch d = Some (DeleteJob m)"
  then obtain t f m' where tf: "(t, f) \<in> set actions" "fire t d = Some m'" "DeleteJob m = f m'"
    unfolding dispatch_def by (blast dest: first_match_Some)
  then have "t = Regex ''delete_job_'' Digits" by (auto simp: actions_def)
  with tf have "regex_exec (''delete_'' @ ''job_'') Digits d = Some m'" by simp
  then have "regex_exec ''job_'' Digits d \<noteq> None" by (rule regex_exec_longer)
  with a show False using job_trigger_shadows[of d] by auto
qed

lemma confirm_delete_job_unreachable: "dispatch d \<noteq> Some (ConfirmDeleteJob m)"
proof
  assume a: "dispatch d = Some (ConfirmDeleteJob m)"
  then obtain t f m' where tf: "(t, f) \<in> set actions" "fire t d = Some m'"
      "ConfirmDeleteJob m = f m'"
    unfolding dispatch_def by (blast dest: first_match_Some)
  then have "t = Regex ''confirm_delete_job_'' Digits" by (auto simp: actions_def)
  with tf have "regex_exec (''confirm_delete_'' @ ''job_'') Digits d = Some m'" by simp
  then have "regex_exec ''job_'' Digits d \<noteq> None" by (rule regex_exec_longer)
  with a show False using job_trigger_shadows[of d] by auto
qed

lemma takeWhile_digits: "\<forall>c\<in>set ds. is_digit c \<Longrightarrow> takeWhile is_digit ds = ds"
  by (induction ds) auto

lemma regex_exec_job:
  "ds \<noteq> [] \<Longrightarrow> \<forall>c\<in>set ds. is_digit c \<Longrightarrow> regex_exec ''job_'' Digits (''job_'' @ ds) = Some ds"
  by (simp add: match_here_def takeWhile_digits)

text \<open>What does round-trip: the identifier of a job's row, and the fixed identifiers.\<close>

lemma dispatch_job:
  "ds \<noteq> [] \<Longrightarrow> \<forall>c\<in>set ds. is_digit c \<Longrightarrow> dispatch (''job_'' @ ds) = Some (JobDetails ds)"
  using regex_exec_job[of ds] by (simp add: dispatch_def actions_def)

lemma dispatch_jobs_list: "dispatch ''jobs_list'' = Some JobsList"
  by (simp add: dispatch_def actions_def)

lemma dispatch_back:
  "dispatch ''back_menu'' = Some BackMenu \<and> dispatch ''back_jobs'' = Some BackJobs
   \<and> dispatch ''back_targets'' = Some BackTargets \<and> dispatch ''back_leads'' = Some BackLeads"
  by (simp add: dispatch_def actions_def match_here_def)

lemma dispatch_create:
  "dispatch ''jobs_create'' = None \<and> dispatch ''targets_create'' = None"
  by (simp add: dispatch_def actions_def match_here_def)

text \<open>
  Claim C1. A button press carrying an identifier of the screen catalog is dispatched
  to the handler of the verb, resource and id that produced it. The code does not do
  this for the identifiers the job detail screen produces for job 7: \<open>run_job_7\<close>,
  \<open>delete_job_7\<close> and \<open>confirm_delete_job_7\<close> are all dispatched to the job detail
  handler, because its trigger \<open>/job_(\d+)/\<close> is registered first and matches inside
  them.
\<close>

theorem run_job_press_reaches_job_details:
  "dispatch ''run_job_7'' = Some (JobDetails ''7'')
   \<and> dispatch ''delete_job_7'' = Some (JobDetails ''7'')
   \<and> dispatch ''confirm_delete_job_7'' = Some (JobDetails ''7'')"
  by (simp add: dispatch_def actions_def match_here_def is_digit_def)

section \<open>Facts about the requests of a run\<close>

lemma requests_append: "requests (xs @ ys) = requests xs @ requests ys"
  by (induction xs rule: requests.induct) auto

lemma reaction_requests:
  "requests (reactToMessage e emoji) = []"
  "requests (setMessageReaction e emoji) = []"
  by (simp_all add: reactToMessage_def setMessageReaction_def)

lemma makeApiRequest_requests:
  "makeApiRequest e st cl ep m d = (r, st', reqs) \<Longrightarrow>
     requests reqs = (case cl of None \<Rightarrow> [] | Some c \<Rightarrow> [request_config c ep m d])"
  by (auto simp: makeApiRequest_def Let_def split: option.splits http_result.splits if_splits)

lemma request_config_no_timeout: "map_of (request_config c ep m d) ''timeout'' = None"
  by (simp add: request_config_def split: option.splits)

lemma testConfig_no_timeout: "map_of (testConfig e token) ''timeout'' = None"
  by (simp add: testConfig_def)

lemma jobs_list_requests:
  "requests (fst (snd (jobs_list e st uid)))
     = one_request st uid ''/jobs?page=1&per_page=10'' ''GET''"
  by (auto simp: jobs_list_def one_request_def Let_def requests_append
      reaction_requests
      split: prod.splits sum.splits body.splits option.splits dest!: makeApiRequest_requests)

lemma job_details_requests:
  "requests (fst (snd (job_details e st uid m))) = one_request st uid (''/jobs/'' @ m) ''GET''"
  by (auto simp: job_details_def one_request_def Let_def requests_append
      reaction_requests
      split: prod.splits sum.splits body.splits option.splits dest!: makeApiRequest_requests)

lemma run_job_requests:
  "requests (fst (snd (run_job e st uid m)))
     = one_request st uid (''/jobs/'' @ m @ ''/run'') ''POST''"
  by (auto simp: run_job_def one_request_def Let_def requests_append
      reaction_requests
      split: prod.splits sum.splits body.splits option.splits dest!: makeApiRequest_requests)

lemma confirm_delete_job_requests:
  "requests (fst (snd (confirm_delete_job e st uid m)))
     = one_request st uid (''/jobs/'' @ m) ''DELETE''"
  by (auto simp: confirm_delete_job_def job_deleted_def one_request_def Let_def requests_append
      reaction_requests
      split: prod.splits sum.splits body.splits option.splits dest!: makeApiRequest_requests)

lemma targets_list_requests:
  "requests (fst (snd (targets_list e st uid)))
     = one_request st uid ''/targets?page=1&per_page=10'' ''GET''"
  by (auto simp: targets_list_def one_request_def Let_def requests_append
      reaction_requests
      split: prod.splits sum.splits body.splits option.splits dest!: makeApiRequest_requests)

lemma leads_list_requests:
  "requests (fst (snd (leads_list e st uid m)))
     = one_request st uid
         (''/leads'' @ (if m = ''ready'' then ''?outreach_ready=true&page=1'' else ''?page=1''))
         ''GET''"
  by (auto simp: leads_list_def one_request_def Let_def requests_append
      reaction_requests
      split: prod.splits sum.splits body.splits option.splits dest!: makeApiRequest_requests)

lemma lead_details_requests:
  "requests (fst (snd (lead_details e st uid m))) = one_request st uid (''/leads/'' @ m) ''GET''"
  by (auto simp: lead_details_def one_request_def Let_def requests_append
      reaction_requests
      split: prod.splits sum.splits body.splits option.splits dest!: makeApiRequest_requests)

lemma local_handler_requests:
  "requests (fst (snd (delete_job e st uid m))) = []"
  "requests (fst (snd (confirm_delete_account e st uid))) = []"
  "requests (fst (snd (cancel_delete e st uid))) = []"
  "requests (fst (snd (back_menu e st uid))) = []"
  "requests (fst (snd (back_jobs e st uid))) = []"
  "requests (fst (snd (back_targets e st uid))) = []"
  "requests (fst (snd (back_leads e st uid))) = []"
  by (simp_all add: delete_job_def confirm_delete_account_def cancel_delete_def back_menu_def
      back_jobs_def back_targets_def back_leads_def Let_def requests_append reaction_requests)

lemmas handler_requests = jobs_list_requests job_details_requests run_job_requests
  confirm_delete_job_requests targets_list_requests leads_list_requests lead_details_requests
  local_handler_requests

lemma bot_catch_requests: "requests (snd (bot_catch r)) = requests (fst (snd r))"
  by (cases r) (auto simp: bot_catch_def requests_append split: completion.splits)

lemma one_request_timeouts:
  "cfg \<in> set (one_request st uid ep m) \<Longrightarrow> map_of cfg ''timeout'' = None"
  by (auto simp: one_request_def request_config_no_timeout split: option.splits)

lemma on_button_requests_cases:
  "cfg \<in> set (requests (snd (on_button e st uid d)))
     \<Longrightarrow> \<exists>ep m. cfg \<in> set (one_request st uid ep m)"
proof (cases "dispatch d")
  case None
  assume "cfg \<in> set (requests (snd (on_button e st uid d)))"
  with None show ?thesis by (simp add: on_button_def)
next
  case (Some h)
  assume "cfg \<in> set (requests (snd (on_button e st uid d)))"
  with Some show ?thesis
    by (cases h) (auto simp: on_button_def bot_catch_requests handler_requests)
qed

text \<open>
  The only requests a button press sends are \<open>GET\<close>s: the handlers that send a \<open>POST\<close>
  or a \<open>DELETE\<close> are the ones that are never reached.
\<close>

lemma every_press_sends_only_gets:
  assumes "cfg \<in> set (requests (snd (on_button e st uid d)))"
  shows "map_of cfg ''method'' = Some (Str ''GET'')"
proof (cases "dispatch d")
  case None
  with assms show ?thesis by (simp add: on_button_def)
next
  case (Some h)
  have reach: "\<And>m. h \<noteq> RunJob m" "\<And>m. h \<noteq> DeleteJob m" "\<And>m. h \<noteq> ConfirmDeleteJob m"
    using Some run_job_unreachable delete_job_unreachable confirm_delete_job_unreachable
    by auto
  from assms Some reach show ?thesis
    by (cases h)
       (auto simp: on_button_def bot_catch_requests handler_requests one_request_def
          request_config_def split: option.splits)
qed

text \<open>No button press of an identity without a stored client sends a request.\<close>

lemma no_client_no_request:
  assumes "getClient st uid = None"
  shows "requests (snd (on_button e st uid d)) = []"
proof -
  have "\<And>cfg. cfg \<notin> set (requests (snd (on_button e st uid d)))"
    using assms by (auto dest!: on_button_requests_cases simp: one_request_def)
  then show ?thesis by (cases "requests (snd (on_button e st uid d))") auto
qed

text \<open>The menu entries are gated: without a stored client they only ask to onboard.\<close>

lemma menu_entries_gated:
  assumes "getClient st uid = None"
  shows "hears_jobs e st uid
           = (st, reactToMessage e e_eyes @ [Reply not_onboarded None], Returned)"
    and "hears_targets e st uid
           = (st, reactToMessage e e_eyes @ [Reply not_onboarded None], Returned)"
    and "hears_leads e st uid
           = (st, reactToMessage e e_eyes @ [Reply not_onboarded None], Returned)"
    and "hears_content_analysis e st uid
           = (st, reactToMessage e e_eyes @ [Reply not_onboarded None], Returned)"
  using assms
  by (simp_all add: hears_jobs_def hears_targets_def hears_leads_def hears_content_analysis_def)

text \<open>A handler that returns has not sent the reply of \<open>bot.catch\<close> itself.\<close>

lemma makeApiRequest_effects:
  "makeApiRequest e st cl ep m d = (r, st', reqs) \<Longrightarrow> x \<in> set reqs \<Longrightarrow> \<exists>cfg. x = Http cfg"
  by (auto simp: makeApiRequest_def Let_def split: option.splits http_result.splits if_splits)

lemma returned_handlers_no_fallback:
  "run_handler e st uid h = (st', effs, Returned)
     \<Longrightarrow> Reply something_went_wrong None \<notin> set effs"
  by (cases h)
     (auto simp: jobs_list_def job_details_def run_job_def delete_job_def confirm_delete_job_def
        targets_list_def leads_list_def lead_details_def confirm_delete_account_def
        cancel_delete_def back_menu_def back_jobs_def back_targets_def back_leads_def
        job_deleted_def Let_def setMessageReaction_def
        split: prod.splits sum.splits body.splits option.splits if_splits
        dest: makeApiRequest_effects)

text \<open>\<open>settoken\<close> writes to the store only after a verification that succeeded.\<close>

lemma settoken_writes_only_after_verification:
  "fst (settoken e st uid text) \<noteq> st \<Longrightarrow>
     \<exists>token rest b. command_args text = token # rest
                    \<and> axios e (testConfig e token) = Ok b \<and> db_ok e"
  by (auto simp: settoken_def Let_def split: list.splits http_result.splits if_splits)

section \<open>The claims\<close>




text \<open>
  Claim C3, as the code has it. When the backend request succeeds, \<open>makeApiRequest\<close>
  returns the response body if the update of \<open>lastUsed\<close> succeeds too; if that update
  fails, the call fails with the generic error.
\<close>

theorem makeApiRequest_needs_touch:
  "axios e (request_config c endpoint method data) = Ok b \<Longrightarrow>
     fst (makeApiRequest e st (Some c) endpoint method data)
       = (if db_ok e then Inr b else Inl generic_error)"
  by (simp add: makeApiRequest_def)

theorem makeApiRequest_needs_touch_witness:
  "axios (answering (Ok Plain) True) (request_config client1 ''/stats'' ''GET'' None) = Ok Plain
   \<and> fst (makeApiRequest (answering (Ok Plain) True) store1 (Some client1) ''/stats'' ''GET'' None)
       = Inr Plain"
  using makeApiRequest_needs_touch
          [of "answering (Ok Plain) True" client1 "''/stats''" "''GET''" None Plain store1]
  by (simp add: answering_def)

theorem touch_failure_fails_request:
  "axios (answering (Ok Plain) False) (request_config client1 ''/stats'' ''GET'' None) = Ok Plain
   \<and> fst (makeApiRequest (answering (Ok Plain) False) store1 (Some client1) ''/stats'' ''GET'' None)
       = Inl generic_error"
  by (simp add: answering_def makeApiRequest_def)

text \<open>
  Claim C4. A handler that needs a credential answers an identity without one with
  the "not onboarded" message and does nothing else. The menu entries do; the button
  handlers do not: \<open>jobs_list\<close> pressed by an identity with no stored client calls
  \<open>makeApiRequest\<close> with the absent client and shows its generic failure.
\<close>

theorem jobs_list_without_credential:
  "snd (on_button (answering (Ok Plain) True) Map.empty ''42'' ''jobs_list'') =
     [ AnswerCbQuery (Some (e_eye @ '' Loading jobs...'')) False,
       EditMessageText (e_cross @ '' Error: API request failed'') None ]"
  by (simp add: on_button_def dispatch_def actions_def bot_catch_def jobs_list_def getClient_def
      makeApiRequest_def fetch_failed_def or_else_def generic_error_def)

text \<open>
  Claim C5, as the code has it. A button press whose identifier matches no registered
  trigger runs no handler: the store is unchanged and nothing is sent. The fixed reply
  of \<open>bot.catch\<close> is sent only when the handler of a matched press throws.
\<close>

theorem unmatched_press_sends_nothing:
  "(dispatch d = None \<longrightarrow> on_button e st uid d = (st, []))
   \<and> (Reply something_went_wrong None \<in> set (snd (on_button e st uid d)) \<longrightarrow>
        (\<exists>h. dispatch d = Some h \<and> snd (snd (run_handler e st uid h)) = Threw))"
proof (intro conjI impI)
  assume "dispatch d = None"
  then show "on_button e st uid d = (st, [])"
    by (simp add: on_button_def)
next
  assume a: "Reply something_went_wrong None \<in> set (snd (on_button e st uid d))"
  show "\<exists>h. dispatch d = Some h \<and> snd (snd (run_handler e st uid h)) = Threw"
  proof (cases "dispatch d")
    case None
    with a show ?thesis by (simp add: on_button_def)
  next
    case (Some h)
    obtain st' effs c where r: "run_handler e st uid h = (st', effs, c)"
      by (cases "run_handler e st uid h") auto
    show ?thesis
    proof (cases c)
      case Returned
      with r have "Reply something_went_wrong None \<notin> set effs"
        using returned_handlers_no_fallback by blast
      with a Some r Returned show ?thesis
        by (simp add: on_button_def bot_catch_def)
    next
      case Threw
      with Some r show ?thesis by simp
    qed
  qed
qed

theorem unmatched_press_sends_nothing_witness:
  "dispatch ''jobs_create'' = None
   \<and> on_button (answering (Ok Plain) True) store1 ''42'' ''jobs_create'' = (store1, [])
   \<and> Reply something_went_wrong None
        \<in> set (snd (on_button (answering (Ok Plain) False) store1 ''42''
                       ''confirm_delete_account''))
   \<and> dispatch ''confirm_delete_account'' = Some ConfirmDeleteAccount
   \<and> snd (snd (run_handler (answering (Ok Plain) False) store1 ''42'' ConfirmDeleteAccount))
       = Threw"
proof -
  have a: "dispatch ''jobs_create'' = None"
    by (simp add: dispatch_def actions_def match_here_def)
  have b: "dispatch ''confirm_delete_account'' = Some ConfirmDeleteAccount"
    by (simp add: dispatch_def actions_def match_here_def)
  have c: "Reply something_went_wrong None
             \<in> set (snd (on_button (answering (Ok Plain) False) store1 ''42''
                            ''confirm_delete_account''))"
    by (simp add: on_button_def b bot_catch_def confirm_delete_account_def Let_def
        answering_def)
  from unmatched_press_sends_nothing
         [of "''jobs_create''" "answering (Ok Plain) True" store1 "''42''"]
       unmatched_press_sends_nothing
         [of "''confirm_delete_account''" "answering (Ok Plain) False" store1 "''42''"]
       a b c
  show ?thesis by simp
qed

theorem targets_create_sends_nothing:
  "snd (on_button (answering (Ok Plain) True) store1 ''42'' ''targets_create'') = []"
  by (simp add: on_button_def dispatch_def actions_def match_here_def)




text \<open>
  Claim C7, as the code has it. No request sets a timeout: the configuration of every
  request a button handler sends, of the verification request of \<open>settoken\<close> and of the
  content analysis request has no key \<open>timeout\<close>.
\<close>

theorem no_request_sets_timeout:
  "set (timeouts (snd (on_button e st uid d))) \<subseteq> {None}
   \<and> set (timeouts (fst (snd (settoken e st uid text)))) \<subseteq> {None}
   \<and> set (timeouts (fst (snd (hears_content_analysis e st uid)))) \<subseteq> {None}"
proof (intro conjI)
  show "set (timeouts (snd (on_button e st uid d))) \<subseteq> {None}"
    by (auto simp: timeouts_def dest!: on_button_requests_cases one_request_timeouts)
  show "set (timeouts (fst (snd (settoken e st uid text)))) \<subseteq> {None}"
    by (auto simp: timeouts_def settoken_def Let_def testConfig_no_timeout requests_append
        reaction_requests
        split: list.splits http_result.splits if_splits)
  show "set (timeouts (fst (snd (hears_content_analysis e st uid)))) \<subseteq> {None}"
    by (auto simp: timeouts_def hears_content_analysis_def Let_def requests_append
        request_config_no_timeout reaction_requests
        split: option.splits prod.splits sum.splits body.splits if_splits
        dest!: makeApiRequest_requests)
qed

theorem no_request_sets_timeout_witness:
  "timeouts (snd (on_button (answering (Ok Plain) True) store1 ''42'' ''targets_list''))
     = [None]
   \<and> timeouts (fst (snd (settoken (answering (Ok Plain) True) store1 ''42'' ''/settoken T2'')))
     = [None]"
proof -
  have "length (timeouts (snd (on_button (answering (Ok Plain) True) store1 ''42''
                                 ''targets_list''))) = 1"
    by (simp add: timeouts_def on_button_def dispatch_def actions_def match_here_def
        bot_catch_requests targets_list_requests one_request_def getClient_def store1_def)
  moreover
  have "length (timeouts (fst (snd (settoken (answering (Ok Plain) True) store1 ''42''
                                      ''/settoken T2'')))) = 1"
    by (simp add: timeouts_def settoken_def command_args_def Let_def answering_def
        requests_append reaction_requests)
  ultimately show ?thesis
    using no_request_sets_timeout
            [of "answering (Ok Plain) True" store1 "''42''" "''targets_list''" "''/settoken T2''"]
    by (auto simp: length_Suc_conv)
qed

theorem jobs_list_request_has_no_timeout:
  "timeouts (snd (on_button (answering (Ok Plain) True) store1 ''42'' ''jobs_list'')) = [None]"
  by (simp add: timeouts_def on_button_def dispatch_jobs_list bot_catch_requests
      jobs_list_requests one_request_def getClient_def store1_def request_config_no_timeout)

text \<open>
  Claim C8. When the verification request of \<open>settoken\<close> fails for an identity with
  no stored client, the store is left as it was and holds no client for the identity.
\<close>

theorem failed_verification_persists_nothing:
  assumes "getClient st uid = None"
    and "command_args text = token # rest"
    and "axios e (testConfig e token) = Failed v"
  shows "fst (settoken e st uid text) = st
         \<and> getClient (fst (settoken e st uid text)) uid = None"
  using assms by (simp add: settoken_def Let_def)

theorem failed_verification_persists_nothing_witness:
  "getClient Map.empty ''42'' = None
   \<and> command_args ''/settoken bad'' = [''bad'']
   \<and> axios (answering (Failed None) True) (testConfig (answering (Failed None) True) ''bad'')
       = Failed None
   \<and> getClient (fst (settoken (answering (Failed None) True) Map.empty ''42'' ''/settoken bad''))
        ''42'' = None"
proof -
  have a: "getClient Map.empty ''42'' = None"
    by (simp add: getClient_def)
  have b: "command_args ''/settoken bad'' = [''bad'']"
    by (simp add: command_args_def)
  have c: "axios (answering (Failed None) True)
             (testConfig (answering (Failed None) True) ''bad'') = Failed None"
    by (simp add: answering_def)
  from failed_verification_persists_nothing[OF a b c] a b c show ?thesis by simp
qed

text \<open>
  What holds of the list views: an empty list short-circuits to the fixed screen in all
  four, the lists of jobs and of leads print the page position and the total, and a
  list with items but without the object \<open>pagination\<close> ends in the error screen.
\<close>

lemma empty_listings_short_circuit:
  assumes "getClient st uid = Some c"
    and "\<And>cfg. axios e cfg = Ok (Listing [] pgn)"
    and "db_ok e"
  shows "last (fst (snd (jobs_list e st uid)))
           = EditMessageText (e_mailbox @ '' No jobs found.'' @ nl @ nl
                              @ ''Create your first job!'') None"
    and "last (fst (snd (targets_list e st uid)))
           = EditMessageText (e_mailbox @ '' No targets found.'') None"
    and "last (fst (snd (leads_list e st uid type)))
           = EditMessageText (e_mailbox @ '' No leads found.'') None"
    and "last (fst (snd (hears_content_analysis e st uid)))
           = EditLoading (e_mailbox @ '' No content analysis data found.'')"
  using assms
  by (simp_all add: jobs_list_def targets_list_def leads_list_def hears_content_analysis_def
      makeApiRequest_def Let_def split: option.splits)

lemma jobs_and_leads_show_total:
  assumes "getClient st uid = Some c"
    and "\<And>cfg. axios e cfg = Ok (Listing items (Some pg))"
    and "db_ok e"
    and "items \<noteq> []"
  shows "last (fst (snd (jobs_list e st uid)))
           = EditMessageText
               (e_chart @ '' Jobs List (Page '' @ to_str (page pg) @ ''/''
                  @ to_str (pages pg) @ '')'' @ nl
                @ e_package @ '' Total: '' @ to_str (total pg) @ nl @ nl
                @ ''Select a job to view details:'')
               (Some (Inline (map (job_button e) items
                              @ [[(e_back @ '' Back'', ''back_jobs'')]])))"
    and "last (fst (snd (leads_list e st uid type)))
           = EditMessageText
               (e_people @ '' Leads (Page '' @ to_str (page pg) @ ''/''
                  @ to_str (pages pg) @ '')'' @ nl
                @ ''Total: '' @ to_str (total pg) @ nl @ nl
                @ ''Select a lead:'')
               (Some (Inline (map lead_button items @ [[(e_back @ '' Back'', ''back_leads'')]])))"
  using assms
  by (simp_all add: jobs_list_def leads_list_def makeApiRequest_def Let_def)

lemma listing_without_pagination:
  assumes "getClient st uid = Some c"
    and "\<And>cfg. axios e cfg = Ok (Listing items None)"
    and "db_ok e"
    and "items \<noteq> []"
  shows "last (fst (snd (jobs_list e st uid)))
           = EditMessageText (e_cross @ '' Error: Failed to fetch jobs'') None"
    and "last (fst (snd (targets_list e st uid)))
           = EditMessageText (e_cross @ '' Error: Failed to fetch targets'') None"
    and "last (fst (snd (leads_list e st uid type)))
           = EditMessageText (e_cross @ '' Error: Failed to fetch leads'') None"
  using assms
  by (simp_all add: jobs_list_def targets_list_def leads_list_def makeApiRequest_def Let_def
      fetch_failed_def or_else_def)

text \<open>
  Claim C9. A list view with at least one item shows the page position and the total
  count. The list of targets does not: for the first of 6 pages of 57 targets the
  screen names page 1 of 6, and the total appears nowhere on it.
\<close>

theorem targets_screen_lacks_total:
  "fst (snd (targets_list (answering (Ok listing1) True) store1 ''42''))
     = [ AnswerCbQuery (Some (e_eye @ '' Loading targets...'')) False,
         Http (request_config client1 ''/targets?page=1&per_page=10'' ''GET'' None),
         EditMessageText (e_target @ '' Targets (Page 1/6)'' @ nl @ nl @ ''Select a target:'')
           (Some (Inline [ [(e_target @ '' acme'', ''target_5'')],
                           [(e_back @ '' Back'', ''back_targets'')] ])) ]"
  by (simp add: targets_list_def getClient_def store1_def makeApiRequest_def answering_def
      listing1_def Let_def target_button_def field_def show_nat.simps)



end
